theory Spec2Isabelle
  imports Complex_Main "HOL-Library.Word"
begin

section \<open>Exceptions\<close>

text \<open>
  Every \<^verbatim>\<open>raise\<close>, failed \<^verbatim>\<open>assert\<close> and failing library call of
  \<^verbatim>\<open>context_pyopencl.py\<close> is a value of this type. The constructors are the Python
  exception classes; \<open>CLError\<close> is the exception pyopencl raises when the OpenCL
  runtime refuses a request. Assertions are taken as enabled.
\<close>

datatype error =
    AssertionError
  | NotImplementedError
  | ValueError
  | KeyError
  | IndexError
  | TypeError
  | AttributeError
  | CLError

section \<open>Device buffers (class BufferPyopencl)\<close>

text \<open>
  A \<^verbatim>\<open>cl.Buffer\<close> is a handle into device memory; device memory is a store from
  handles to byte sequences, and the size of a \<^verbatim>\<open>cl.Buffer\<close> is the length of its
  sequence. A \<^verbatim>\<open>BufferPyopencl\<close> object holds its \<^verbatim>\<open>capacity\<close> and the handle
  \<^verbatim>\<open>self.buffer\<close> that \<^verbatim>\<open>_new_buffer(capacity)\<close> returned.
\<close>

type_synonym byte = "8 word"
type_synonym cl_mem = nat
type_synonym device_memory = "cl_mem \<Rightarrow> byte list"

record BufferPyopencl =
  capacity :: nat
  buffer :: cl_mem

text \<open>
  \<^verbatim>\<open>_new_buffer\<close>: \<^verbatim>\<open>cl.Buffer(context, READ_WRITE, capacity)\<close> gives a fresh
  handle \<open>h\<close> to \<open>capacity\<close> bytes of unspecified content \<open>junk\<close>.
\<close>

definition new_buffer :: "cl_mem \<Rightarrow> byte list \<Rightarrow> nat \<Rightarrow> device_memory \<Rightarrow> BufferPyopencl \<times> device_memory" where
  "new_buffer h junk cap dev =
     (\<lparr>capacity = cap, buffer = h\<rparr>, dev(h := take cap (junk @ replicate cap 0)))"

text \<open>What ties the object to device memory: the handle's region has \<open>capacity\<close> bytes.\<close>

definition buffer_ok :: "BufferPyopencl \<Rightarrow> device_memory \<Rightarrow> bool" where
  "buffer_ok self dev = (length (dev (buffer self)) = capacity self)"

text \<open>
  Model of the library call \<^verbatim>\<open>cl.enqueue_copy(queue, dest, src, device_offset=...)\<close>
  between a host byte object and a device buffer (a blocking transfer on the in-order
  queue). The number of bytes moved is the length of the host object. pyopencl takes
  \<^verbatim>\<open>device_offset\<close> as an unsigned size: a negative offset is a \<open>TypeError\<close>, raised
  before the runtime is asked. A region \<open>[device_offset, device_offset + len)\<close> inside
  the device buffer is transferred. For any other region the code has no test of its
  own and the outcome is the runtime's: an error, or a transfer the driver lets through
  (its sum of offset and size may wrap). That outcome is the parameter \<open>driver\<close>.
\<close>

record opencl_driver =
  read_outside :: "device_memory \<Rightarrow> cl_mem \<Rightarrow> int \<Rightarrow> nat \<Rightarrow> error + byte list"
  write_outside :: "device_memory \<Rightarrow> cl_mem \<Rightarrow> int \<Rightarrow> byte list \<Rightarrow> error + device_memory"

definition region_ok :: "device_memory \<Rightarrow> cl_mem \<Rightarrow> int \<Rightarrow> nat \<Rightarrow> bool" where
  "region_ok dev m device_offset n =
     (0 \<le> device_offset \<and> device_offset + int n \<le> int (length (dev m)))"

definition enqueue_copy_to_device ::
  "opencl_driver \<Rightarrow> device_memory \<Rightarrow> cl_mem \<Rightarrow> byte list \<Rightarrow> int \<Rightarrow> error + device_memory" where
  "enqueue_copy_to_device driver dev dest src device_offset =
     (if device_offset < 0 then Inl TypeError
      else if region_ok dev dest device_offset (length src)
      then Inr (dev(dest := take (nat device_offset) (dev dest) @ src
                              @ drop (nat device_offset + length src) (dev dest)))
      else write_outside driver dev dest device_offset src)"

definition enqueue_copy_to_host ::
  "opencl_driver \<Rightarrow> device_memory \<Rightarrow> byte list \<Rightarrow> cl_mem \<Rightarrow> int \<Rightarrow> error + byte list" where
  "enqueue_copy_to_host driver dev dest src device_offset =
     (if device_offset < 0 then Inl TypeError
      else if region_ok dev src device_offset (length dest)
      then Inr (take (length dest) (drop (nat device_offset) (dev src)))
      else read_outside driver dev src device_offset (length dest))"

text \<open>Python's \<^verbatim>\<open>bytearray(size)\<close>: \<open>size\<close> zero bytes; a negative count raises.\<close>

definition bytearray :: "int \<Rightarrow> error + byte list" where
  "bytearray n = (if n < 0 then Inl ValueError else Inr (replicate (nat n) 0))"

text \<open>
  \<^verbatim>\<open>BufferPyopencl.write(offset, data)\<close> and \<^verbatim>\<open>BufferPyopencl.read(offset, size)\<close>.
  \<open>buffer_write\<close> returns the device memory after the call, \<open>buffer_read\<close> the
  bytearray the method returns.
\<close>

definition buffer_write ::
  "opencl_driver \<Rightarrow> BufferPyopencl \<Rightarrow> int \<Rightarrow> byte list \<Rightarrow> device_memory \<Rightarrow> error + device_memory" where
  "buffer_write driver self offset payload dev =
     enqueue_copy_to_device driver dev (buffer self) payload offset"

definition buffer_read ::
  "opencl_driver \<Rightarrow> BufferPyopencl \<Rightarrow> int \<Rightarrow> int \<Rightarrow> device_memory \<Rightarrow> error + byte list" where
  "buffer_read driver self offset sz dev =
     (case bytearray sz of
        Inl e \<Rightarrow> Inl e
      | Inr host \<Rightarrow> enqueue_copy_to_host driver dev host (buffer self) offset)"

text \<open>
  \<^verbatim>\<open>BufferPyopencl.to_nplike(offset, dtype, shape)\<close> calls the array constructor of
  pyopencl with the queue and three keywords: \<^verbatim>\<open>base_data=self.buffer\<close>,
  \<^verbatim>\<open>offset=offset\<close>, \<^verbatim>\<open>shape=shape\<close>. The record lists the keywords a call can
  carry (\<open>None\<close>: not passed); the constructor itself is the parameter \<open>Array\<close>.
\<close>

record Array_kwargs =
  kw_shape :: "nat list option"
  kw_dtype :: "string option"
  kw_data :: "cl_mem option"
  kw_base_data :: "cl_mem option"
  kw_offset :: "int option"

definition to_nplike ::
  "(Array_kwargs \<Rightarrow> error + 'view) \<Rightarrow> BufferPyopencl \<Rightarrow> int \<Rightarrow> string \<Rightarrow> nat list \<Rightarrow> error + 'view" where
  "to_nplike Array self offset dtype shape =
     Array \<lparr>kw_shape = Some shape, kw_dtype = None, kw_data = None,
            kw_base_data = Some (buffer self), kw_offset = Some offset\<rparr>"

text \<open>
  Model of the library constructor, from its signature
  \<^verbatim>\<open>Array(cq, shape, dtype, order="C", allocator=None, data=None, offset=0, ...)\<close>:
  \<open>shape\<close> and \<open>dtype\<close> are required, the memory is passed as \<open>data\<close>, and a keyword
  the signature does not have is a \<open>TypeError\<close>. The view it builds shares the memory
  of the handle it is given.
\<close>

record typed_view =
  view_data :: "cl_mem option"
  view_offset :: int
  view_dtype :: string
  view_shape :: "nat list"

definition cl_array_Array :: "Array_kwargs \<Rightarrow> error + typed_view" where
  "cl_array_Array kw =
     (if kw_base_data kw \<noteq> None then Inl TypeError
      else case (kw_shape kw, kw_dtype kw) of
             (Some sh, Some dt) \<Rightarrow>
               Inr \<lparr>view_data = kw_data kw,
                    view_offset = (case kw_offset kw of None \<Rightarrow> 0 | Some off \<Rightarrow> off),
                    view_dtype = dt, view_shape = sh\<rparr>
           | _ \<Rightarrow> Inl TypeError)"

section \<open>Kernel descriptions and values\<close>

text \<open>
  The description objects come from the caller. The code reads \<^verbatim>\<open>kernel.c_name\<close>,
  \<^verbatim>\<open>description.args\<close>, \<^verbatim>\<open>description.n_threads\<close>, in two error messages
  \<^verbatim>\<open>description.pyname\<close> (\<open>None\<close>: the object has no such attribute; the code never
  sets it) and, of each argument,
  \<^verbatim>\<open>arg.name\<close>, \<^verbatim>\<open>arg.pointer\<close> and \<^verbatim>\<open>arg.atype\<close>. Of an \<open>atype\<close> it asks
  only \<^verbatim>\<open>hasattr(atype, "_dtype")\<close> (a numerical scalar type) and
  \<^verbatim>\<open>hasattr(atype, "_size")\<close> (a compound xobject type).
\<close>

datatype atype = ScalarType string | CompoundType | OtherType

fun atype_has_dtype :: "atype \<Rightarrow> bool" where
  "atype_has_dtype (ScalarType _) = True"
| "atype_has_dtype _ = False"

fun atype_has_size :: "atype \<Rightarrow> bool" where
  "atype_has_size OtherType = False"
| "atype_has_size _ = True"

record arg =
  name :: string
  pointer :: bool
  atype :: atype

datatype n_threads_spec = ThreadsArg string | ThreadsFixed int

record kernel_description =
  c_name :: "string option"
  pyname_attr :: "string option"
  args :: "arg list"
  n_threads :: n_threads_spec

text \<open>
  The values a caller can supply, by what \<^verbatim>\<open>to_function_arg\<close> asks of them:
  \<^verbatim>\<open>hasattr(value, "dtype")\<close>, \<^verbatim>\<open>isinstance(value, cla.Array)\<close>,
  \<^verbatim>\<open>hasattr(value, "_shape")\<close>. A \<open>ClArray\<close> is a pyopencl array with its
  \<^verbatim>\<open>base_data\<close> handle and \<^verbatim>\<open>offset\<close>; a \<open>HostArray\<close> is a numpy array or numpy
  scalar; an \<open>XoArray\<close> is an xobject array; a \<open>PyInt\<close> is a plain number.
\<close>

datatype pyvalue = ClArray cl_mem int | HostArray | XoArray | PyInt int

fun value_has_dtype :: "pyvalue \<Rightarrow> bool" where
  "value_has_dtype (ClArray _ _) = True"
| "value_has_dtype HostArray = True"
| "value_has_dtype _ = False"

fun value_has_shape :: "pyvalue \<Rightarrow> bool" where
  "value_has_shape XoArray = True"
| "value_has_shape _ = False"

text \<open>
  What reaches the native kernel: the sub-buffer \<^verbatim>\<open>base_data[offset:]\<close>, the numpy
  scalar \<^verbatim>\<open>atype(value)\<close>, or Python's \<open>None\<close>, which a function returns when it
  falls off its end.
\<close>

datatype native_arg = SubBuffer cl_mem int | NumpyScalar atype pyvalue | PyNone

section \<open>Kernel bindings (class KernelPyopencl)\<close>

type_synonym ref = nat
type_synonym native_function = nat
type_synonym event = nat

record KernelPyopencl =
  kernel_function :: native_function
  description :: ref
  wait_on_call :: bool

text \<open>
  The command queue records what was submitted and what was waited for. What the code
  asks of pyopencl and numpy are the parameters of a call:
  \<^item> \<open>cast_scalar\<close> is the scalar conversion \<^verbatim>\<open>arg.atype(value)\<close>;
  \<^item> \<open>sub_buffer\<close> is the slice \<^verbatim>\<open>base_data[offset:]\<close> of a \<^verbatim>\<open>cl.Buffer\<close>, which
    creates a sub-buffer or raises (an offset that is not aligned for the device is
    refused);
  \<^item> \<open>enqueue\<close> is the native kernel call
    \<^verbatim>\<open>self.function(queue, (n_threads,), None, *arg_list)\<close>: it returns the completion
    event or raises;
  \<^item> \<open>wait_for\<close> is \<^verbatim>\<open>event.wait()\<close>: it returns, or raises what the device reported.
\<close>

datatype command = Launch native_function pyvalue "native_arg list" | Wait event

record runtime =
  cast_scalar :: "atype \<Rightarrow> pyvalue \<Rightarrow> error + native_arg"
  sub_buffer :: "cl_mem \<Rightarrow> int \<Rightarrow> error + native_arg"
  enqueue :: "native_function \<Rightarrow> pyvalue \<Rightarrow> native_arg list \<Rightarrow> command list \<Rightarrow> error + event"
  wait_for :: "event \<Rightarrow> error option"

text \<open>
  The two \<^verbatim>\<open>raise ValueError(f"Invalid value ... of kernel {self.description.pyname}")\<close>
  build their message first; reading \<^verbatim>\<open>pyname\<close> of a description that has no such
  attribute is an \<open>AttributeError\<close>.
\<close>

definition raise_invalid_value :: "kernel_description \<Rightarrow> error" where
  "raise_invalid_value d = (case pyname_attr d of None \<Rightarrow> AttributeError | Some _ \<Rightarrow> ValueError)"

text \<open>
  \<^verbatim>\<open>to_function_arg(arg, value)\<close> of the binding whose \<^verbatim>\<open>self.description\<close> is \<open>d\<close>. In
  the pointer branch the inner chain has no \<^verbatim>\<open>else\<close>: a value with neither attribute
  leaves the function without a \<^verbatim>\<open>return\<close>.
\<close>

definition to_function_arg ::
  "runtime \<Rightarrow> kernel_description \<Rightarrow> arg \<Rightarrow> pyvalue \<Rightarrow> error + native_arg" where
  "to_function_arg rt d a v =
     (if pointer a then
        (if atype_has_dtype (atype a) then
           (if value_has_dtype v then
              (case v of ClArray base_data off \<Rightarrow> sub_buffer rt base_data off
                       | _ \<Rightarrow> Inl AssertionError)
            else if value_has_shape v then Inl NotImplementedError
            else Inr PyNone)
         else Inl (raise_invalid_value d))
      else
        (if atype_has_dtype (atype a) then cast_scalar rt (atype a) v
         else if atype_has_size (atype a) then Inl NotImplementedError
         else Inl (raise_invalid_value d)))"

text \<open>
  The loop of \<^verbatim>\<open>__call__\<close> over \<^verbatim>\<open>description.args\<close>: \<^verbatim>\<open>kwargs[arg.name]\<close>
  (a \<open>KeyError\<close> when absent), then \<^verbatim>\<open>to_function_arg\<close>. The keyword arguments are
  the items of the dict.
\<close>

fun marshal ::
  "runtime \<Rightarrow> kernel_description \<Rightarrow> arg list \<Rightarrow> (string \<times> pyvalue) list
     \<Rightarrow> error + native_arg list" where
  "marshal rt d [] kwargs = Inr []"
| "marshal rt d (a # rest) kwargs =
     (case map_of kwargs (name a) of
        None \<Rightarrow> Inl KeyError
      | Some vv \<Rightarrow>
          (case to_function_arg rt d a vv of
             Inl e \<Rightarrow> Inl e
           | Inr x \<Rightarrow>
               (case marshal rt d rest kwargs of
                  Inl e \<Rightarrow> Inl e
                | Inr xs \<Rightarrow> Inr (x # xs))))"

definition resolve_n_threads :: "n_threads_spec \<Rightarrow> (string \<times> pyvalue) list \<Rightarrow> error + pyvalue" where
  "resolve_n_threads nt kwargs =
     (case nt of
        ThreadsArg key \<Rightarrow> (case map_of kwargs key of None \<Rightarrow> Inl KeyError | Some v \<Rightarrow> Inr v)
      | ThreadsFixed n \<Rightarrow> Inr (PyInt n))"

definition num_args :: "(ref \<Rightarrow> kernel_description) \<Rightarrow> KernelPyopencl \<Rightarrow> nat" where
  "num_args objects self = length (args (objects (description self)))"

definition kernel_call ::
  "runtime \<Rightarrow> (ref \<Rightarrow> kernel_description) \<Rightarrow> KernelPyopencl \<Rightarrow> (string \<times> pyvalue) list
     \<Rightarrow> command list \<Rightarrow> (error + event) \<times> command list" where
  "kernel_call rt objects self kwargs queue =
     (if length kwargs \<noteq> num_args objects self then (Inl AssertionError, queue)
      else case marshal rt (objects (description self)) (args (objects (description self))) kwargs of
             Inl e \<Rightarrow> (Inl e, queue)
           | Inr arg_list \<Rightarrow>
              (case resolve_n_threads (n_threads (objects (description self))) kwargs of
                 Inl e \<Rightarrow> (Inl e, queue)
               | Inr nt \<Rightarrow>
                  (case enqueue rt (kernel_function self) nt arg_list queue of
                     Inl e \<Rightarrow> (Inl e, queue)
                   | Inr ev \<Rightarrow>
                      (let submitted = queue @ [Launch (kernel_function self) nt arg_list] in
                       if wait_on_call self then
                         (case wait_for rt ev of
                            Some e \<Rightarrow> (Inl e, submitted)
                          | None \<Rightarrow> (Inr ev, submitted @ [Wait ev]))
                       else (Inr ev, submitted)))))"

section \<open>Compiling kernels (ContextPyopencl.add_kernels)\<close>

text \<open>
  A source is literal text or a file-like object with a \<^verbatim>\<open>name\<close> and the text its
  \<^verbatim>\<open>read()\<close> returns. The collaborators are parameters: \<^verbatim>\<open>os.path.dirname\<close>,
  \<^verbatim>\<open>specialize_source\<close>, writing the file \<^verbatim>\<open>save_source_as\<close>, and
  \<^verbatim>\<open>cl.Program(context, source).build()\<close>, whose result maps the names of the entry
  points to native functions (\<^verbatim>\<open>getattr(prg, c_name)\<close>).
\<close>

datatype source = Text string | FileLike string string

fun source_text :: "source \<Rightarrow> string" where
  "source_text (Text s) = s"
| "source_text (FileLike file_name content) = content"

fun join_lines :: "string list \<Rightarrow> string" where
  "join_lines [] = []"
| "join_lines [s] = s"
| "join_lines (s # rest) = s @ [CHR 0x0A] @ join_lines rest"

record toolchain =
  dirname :: "string \<Rightarrow> string"
  specialize_source :: "string \<Rightarrow> string set \<Rightarrow> error + string"
  save_source :: "string \<Rightarrow> string \<Rightarrow> error option"
  build :: "string \<Rightarrow> error + (string \<rightharpoonup> native_function)"

definition fold_list :: "toolchain \<Rightarrow> source list \<Rightarrow> string set" where
  "fold_list tc sources =
     set (concat (map (\<lambda>ss. case ss of Text _ \<Rightarrow> [] | FileLike file_name _ \<Rightarrow> [dirname tc file_name])
                      sources))"

definition build_program ::
  "toolchain \<Rightarrow> source list \<Rightarrow> bool \<Rightarrow> string option \<Rightarrow> error + (string \<rightharpoonup> native_function)" where
  "build_program tc sources specialize save_source_as =
     (case (if specialize
            then specialize_source tc (join_lines (map source_text sources)) (fold_list tc sources)
            else Inr (join_lines (map source_text sources))) of
        Inl e \<Rightarrow> Inl e
      | Inr src \<Rightarrow>
          (case (case save_source_as of None \<Rightarrow> None | Some path \<Rightarrow> save_source tc path src) of
             Some e \<Rightarrow> Inl e
           | None \<Rightarrow> build tc src))"

text \<open>
  The state the call works on: the store of description objects (the caller's objects,
  addressed by reference), and the context's mapping \<^verbatim>\<open>self.kernels\<close> from kernel name
  to binding. A binding keeps the reference to its description, not a copy.
\<close>

record context_state =
  objects :: "ref \<Rightarrow> kernel_description"
  kernels :: "string \<rightharpoonup> KernelPyopencl"

text \<open>
  The loop \<^verbatim>\<open>for pyname, kernel in kernels.items()\<close>: the dict's items in order, each
  value a reference. An exception leaves the entries already handled in place.
\<close>

fun bind_kernels ::
  "(string \<rightharpoonup> native_function) \<Rightarrow> (string \<times> ref) list \<Rightarrow> context_state
     \<Rightarrow> error option \<times> context_state" where
  "bind_kernels prg [] st = (None, st)"
| "bind_kernels prg ((pyname, kd) # rest) st =
     (let st1 = (if c_name (objects st kd) = None
                 then st\<lparr>objects := (objects st)(kd := (objects st kd)\<lparr>c_name := Some pyname\<rparr>)\<rparr>
                 else st)
      in case c_name (objects st1 kd) of
           None \<Rightarrow> (Some AttributeError, st1)
         | Some cn \<Rightarrow>
            (case prg cn of
               None \<Rightarrow> (Some AttributeError, st1)
             | Some f \<Rightarrow>
                 bind_kernels prg rest
                   (st1\<lparr>kernels := (kernels st1)(pyname \<mapsto>
                          \<lparr>kernel_function = f, description = kd, wait_on_call = True\<rparr>)\<rparr>)))"

definition add_kernels ::
  "toolchain \<Rightarrow> source list \<Rightarrow> (string \<times> ref) list \<Rightarrow> bool \<Rightarrow> string option \<Rightarrow> context_state
     \<Rightarrow> error option \<times> context_state" where
  "add_kernels tc sources kernel_items specialize save_source_as st =
     (case build_program tc sources specialize save_source_as of
        Inl e \<Rightarrow> (Some e, st)
      | Inr prg \<Rightarrow> bind_kernels prg kernel_items st)"

section \<open>Transform plans (class FFTPyopencl)\<close>

text \<open>Python's \<^verbatim>\<open>max\<close> of a sequence and indexing of a tuple by an integer.\<close>

definition py_max :: "int list \<Rightarrow> error + int" where
  "py_max xs = (case xs of [] \<Rightarrow> Inl ValueError | x # rest \<Rightarrow> Inr (fold max rest x))"

definition py_index :: "'a list \<Rightarrow> int \<Rightarrow> error + 'a" where
  "py_index xs i =
     (if 0 \<le> i \<and> i < int (length xs) then Inr (xs ! nat i)
      else if i < 0 \<and> - int (length xs) \<le> i then Inr (xs ! nat (int (length xs) + i))
      else Inl IndexError)"

text \<open>
  The test on one extent \<open>nn\<close>:
  \<^verbatim>\<open>frac_part, _ = np.modf(np.log(nn) / np.log(2)); assert np.isclose(frac_part, 0)\<close>.
  The arithmetic is taken over the reals. \<^verbatim>\<open>np.isclose(a, 0)\<close> with its default
  tolerances is \<open>|a| \<le> 1e-8\<close>. For \<open>nn = 0\<close> numpy gives \<open>log 0 = -inf\<close>, the fractional
  part of \<open>-inf\<close> is \<open>-0.0\<close>, and the test passes.
\<close>

definition isclose_zero :: "real \<Rightarrow> bool" where
  "isclose_zero a = (\<bar>a\<bar> \<le> 1 / 10 ^ 8)"

definition frac_part_log2 :: "nat \<Rightarrow> real" where
  "frac_part_log2 nn = frac (ln (real nn) / ln 2)"

definition extent_accepted :: "nat \<Rightarrow> bool" where
  "extent_accepted nn = (if nn = 0 then True else isclose_zero (frac_part_log2 nn))"

fun check_axes :: "nat list \<Rightarrow> int list \<Rightarrow> error option" where
  "check_axes shape [] = None"
| "check_axes shape (ii # rest) =
     (case py_index shape ii of
        Inl e \<Rightarrow> Some e
      | Inr nn \<Rightarrow> if extent_accepted nn then check_axes shape rest else Some AssertionError)"

record FFTPyopencl =
  axes :: "int list"
  fft_wait_on_call :: bool
  fftobj :: nat

text \<open>
  \<^verbatim>\<open>FFTPyopencl.__init__(context, data, axes, wait_on_call)\<close> on \<open>data.shape\<close>. Building
  the native plan, \<^verbatim>\<open>gpyfft.fft.FFT(context, queue, data, axes=axes)\<close>, is the parameter
  \<open>native_plan\<close>.
\<close>

definition FFTPyopencl_init ::
  "(nat list \<Rightarrow> int list \<Rightarrow> error + nat) \<Rightarrow> nat list \<Rightarrow> int list \<Rightarrow> bool \<Rightarrow> error + FFTPyopencl" where
  "FFTPyopencl_init native_plan shape axs wait =
     (case py_max axs of
        Inl e \<Rightarrow> Inl e
      | Inr m \<Rightarrow>
          if \<not> int (length shape) > m then Inl AssertionError
          else (case check_axes shape (butlast axs) of
                  Some e \<Rightarrow> Inl e
                | None \<Rightarrow>
                    (case native_plan shape axs of
                       Inl e \<Rightarrow> Inl e
                     | Inr plan \<Rightarrow> Inr \<lparr>axes = axs, fft_wait_on_call = wait, fftobj = plan\<rparr>)))"

section \<open>Example inputs\<close>

definition example_objects :: "ref \<Rightarrow> kernel_description" where
  "example_objects r =
     \<lparr>c_name = Some ''scale'', pyname_attr = Some ''scale'',
      args = [\<lparr>name = ''x'', pointer = True, atype = ScalarType ''float64''\<rparr>,
              \<lparr>name = ''n'', pointer = False, atype = ScalarType ''int32''\<rparr>],
      n_threads = ThreadsArg ''n''\<rparr>"

definition example_kernel :: KernelPyopencl where
  "example_kernel = \<lparr>kernel_function = 7, description = 0, wait_on_call = True\<rparr>"

definition example_runtime :: runtime where
  "example_runtime =
     \<lparr>cast_scalar = (\<lambda>t v. Inr (NumpyScalar t v)),
      sub_buffer = (\<lambda>m off. if 0 \<le> off \<and> off mod 128 = 0 then Inr (SubBuffer m off)
                             else Inl CLError),
      enqueue = (\<lambda>f nt al q. Inr (length q)),
      wait_for = (\<lambda>ev. None)\<rparr>"

definition example_pointer_arg :: arg where
  "example_pointer_arg = \<lparr>name = ''x'', pointer = True, atype = ScalarType ''float64''\<rparr>"

definition example_struct_arg :: arg where
  "example_struct_arg = \<lparr>name = ''particles'', pointer = True, atype = CompoundType\<rparr>"

definition example_driver :: opencl_driver where
  "example_driver =
     \<lparr>read_outside = (\<lambda>dev m off n. Inl CLError),
      write_outside = (\<lambda>dev m off bs. Inl CLError)\<rparr>"

definition example_toolchain :: toolchain where
  "example_toolchain =
     \<lparr>dirname = (\<lambda>path. []),
      specialize_source = (\<lambda>src folders. Inr src),
      save_source = (\<lambda>path src. None),
      build = (\<lambda>src. Inr [''scale'' \<mapsto> 1, ''k_add'' \<mapsto> 2])\<rparr>"

definition example_state :: context_state where
  "example_state =
     \<lparr>objects = (\<lambda>r. \<lparr>c_name = (if r = 0 then None else Some ''k_add''),
                         pyname_attr = None, args = [], n_threads = ThreadsFixed 1\<rparr>),
      kernels = [''scale'' \<mapsto> \<lparr>kernel_function = 99, description = 5, wait_on_call = False\<rparr>]\<rparr>"

section \<open>Buffer round trip and bounds\<close>

text \<open>A freshly allocated buffer has its capacity in device memory.\<close>

lemma new_buffer_ok:
  "buffer_ok (fst (new_buffer h junk cap dev)) (snd (new_buffer h junk cap dev))"
  by (simp add: new_buffer_def buffer_ok_def)

lemma write_in_range:
  "region_ok dev (buffer self) offset (length payload) \<Longrightarrow>
   buffer_write driver self offset payload dev =
     Inr (dev(buffer self := take (nat offset) (dev (buffer self)) @ payload
                @ drop (nat offset + length payload) (dev (buffer self))))"
  by (simp add: buffer_write_def enqueue_copy_to_device_def region_ok_def)

lemma read_in_range:
  "0 \<le> nbytes \<Longrightarrow> region_ok dev (buffer self) offset (nat nbytes) \<Longrightarrow>
   buffer_read driver self offset nbytes dev =
     Inr (take (nat nbytes) (drop (nat offset) (dev (buffer self))))"
  by (simp add: buffer_read_def bytearray_def enqueue_copy_to_host_def region_ok_def)

lemma read_after_write_bytes:
  assumes "0 \<le> offset" and "nat offset \<le> length old"
  shows "take (length payload) (drop (nat offset) (take (nat offset) old @ payload @ rest)) = payload"
  using assms by simp

text \<open>
  C1. For every buffer, offset and payload whose range \<open>[offset, offset + len(payload))\<close>
  lies within the buffer's capacity, \<open>write(offset, payload)\<close> succeeds and a following
  \<open>read(offset, len(payload))\<close> returns exactly the payload.
\<close>

theorem write_read_roundtrip:
  assumes "buffer_ok self dev"
      and "0 \<le> offset"
      and "offset + int (length payload) \<le> int (capacity self)"
  shows "\<exists>dev'. buffer_write driver self offset payload dev = Inr dev'
            \<and> buffer_read driver self offset (int (length payload)) dev' = Inr payload"
proof -
  let ?old = "dev (buffer self)"
  let ?new = "take (nat offset) ?old @ payload @ drop (nat offset + length payload) ?old"
  let ?dev' = "dev(buffer self := ?new)"
  have len: "length ?old = capacity self"
    using assms(1) by (simp add: buffer_ok_def)
  have r: "region_ok dev (buffer self) offset (length payload)"
    using assms(2,3) len by (simp add: region_ok_def)
  have w: "buffer_write driver self offset payload dev = Inr ?dev'"
    using r by (rule write_in_range)
  have off: "nat offset \<le> length ?old"
    using assms(2,3) len by linarith
  have len': "length ?new = length ?old"
    using assms(2,3) len by (simp add: min_def) linarith
  have r': "region_ok ?dev' (buffer self) offset (nat (int (length payload)))"
    using r len' by (simp add: region_ok_def)
  have bytes: "take (length payload) (drop (nat offset) ?new) = payload"
    using assms(2) off by (rule read_after_write_bytes)
  have "buffer_read driver self offset (int (length payload)) ?dev'
          = Inr (take (nat (int (length payload))) (drop (nat offset) (?dev' (buffer self))))"
    using r' by (intro read_in_range) simp_all
  then have "buffer_read driver self offset (int (length payload)) ?dev' = Inr payload"
    using bytes by simp
  with w show ?thesis by blast
qed

theorem write_read_roundtrip_witness:
  "buffer_write example_driver \<lparr>capacity = 4, buffer = 0\<rparr> 1 [0xAB, 0xCD] (\<lambda>_. [0, 0, 0, 0])
     = Inr ((\<lambda>_. [0, 0, 0, 0])(0 := [0, 0xAB, 0xCD, 0]))
   \<and> buffer_read example_driver \<lparr>capacity = 4, buffer = 0\<rparr> 1 2
        ((\<lambda>_. [0, 0, 0, 0])(0 := [0, 0xAB, 0xCD, 0]))
     = Inr [0xAB, 0xCD]"
proof -
  have ok: "buffer_ok \<lparr>capacity = 4, buffer = 0\<rparr> (\<lambda>_. [0, 0, 0, 0])"
    by (simp add: buffer_ok_def)
  have w: "buffer_write example_driver \<lparr>capacity = 4, buffer = 0\<rparr> 1 [0xAB, 0xCD] (\<lambda>_. [0, 0, 0, 0])
             = Inr ((\<lambda>_. [0, 0, 0, 0])(0 := [0, 0xAB, 0xCD, 0]))"
    by (simp add: buffer_write_def enqueue_copy_to_device_def region_ok_def)
  from write_read_roundtrip [OF ok, of 1 "[0xAB, 0xCD]" example_driver] w show ?thesis
    by simp
qed





text \<open>
  A region that starts at a non-negative offset and passes the capacity is the one case
  neither method decides: the result is what the runtime makes of it.
\<close>

lemma buffer_read_outside:
  assumes "buffer_ok self dev" and "0 \<le> nbytes" and "0 \<le> offset"
      and "int (capacity self) < offset + nbytes"
  shows "buffer_read driver self offset nbytes dev
           = read_outside driver dev (buffer self) offset (nat nbytes)"
  using assms
  by (simp add: buffer_read_def bytearray_def enqueue_copy_to_host_def region_ok_def buffer_ok_def)

section \<open>Kernel invocation\<close>

lemma kernel_call_wrong_count:
  "length kwargs \<noteq> length (args (objs (description self))) \<Longrightarrow>
   kernel_call rt objs self kwargs queue = (Inl AssertionError, queue)"
  by (simp add: kernel_call_def num_args_def)

text \<open>
  C3. A dict of keyword arguments whose names are the declared names with one missing,
  or with one name more, fails on the count assertion (the argument count error):
  whatever the values are, nothing is marshalled, and the queue is as it was.
\<close>

theorem kernel_call_name_mismatch:
  assumes "distinct (map name (args (objs (description self))))"
      and "distinct (map fst kwargs)"
      and "(\<exists>n. n \<in> set (map name (args (objs (description self))))
               \<and> set (map fst kwargs) = set (map name (args (objs (description self)))) - {n})
         \<or> (\<exists>n. n \<notin> set (map name (args (objs (description self))))
               \<and> set (map fst kwargs) = insert n (set (map name (args (objs (description self))))))"
  shows "kernel_call rt objs self kwargs queue = (Inl AssertionError, queue)"
proof -
  let ?names = "map name (args (objs (description self)))"
  have declared: "length (args (objs (description self))) = card (set ?names)"
    using assms(1) by (metis distinct_card length_map)
  have given: "length kwargs = card (set (map fst kwargs))"
    using assms(2) by (metis distinct_card length_map)
  have "card (set (map fst kwargs)) \<noteq> card (set ?names)"
    using assms(3)
  proof
    assume "\<exists>n. n \<in> set ?names \<and> set (map fst kwargs) = set ?names - {n}"
    then obtain n where n: "n \<in> set ?names" "set (map fst kwargs) = set ?names - {n}"
      by blast
    have "card (set ?names - {n}) < card (set ?names)"
      using n(1) by (intro card_Diff1_less) simp_all
    then show ?thesis using n(2) by simp
  next
    assume "\<exists>n. n \<notin> set ?names \<and> set (map fst kwargs) = insert n (set ?names)"
    then obtain n where n: "n \<notin> set ?names" "set (map fst kwargs) = insert n (set ?names)"
      by blast
    have "card (insert n (set ?names)) = Suc (card (set ?names))"
      using n(1) by simp
    then show ?thesis using n(2) by simp
  qed
  then have "length kwargs \<noteq> length (args (objs (description self)))"
    using declared given by simp
  then show ?thesis by (rule kernel_call_wrong_count)
qed

theorem kernel_call_name_mismatch_witness:
  "kernel_call example_runtime example_objects example_kernel [(''x'', ClArray 3 0)] []
     = (Inl AssertionError, [])
   \<and> kernel_call example_runtime example_objects example_kernel
        [(''x'', ClArray 3 0), (''n'', PyInt 8), (''y'', PyInt 1)] []
     = (Inl AssertionError, [])"
proof -
  have d: "distinct (map name (args (example_objects (description example_kernel))))"
    by (simp add: example_objects_def)
  have d1: "distinct (map fst [(''x'', ClArray 3 0)])"
    by simp
  have d2: "distinct (map fst [(''x'', ClArray 3 0), (''n'', PyInt 8), (''y'', PyInt 1)])"
    by simp
  have m1: "(\<exists>n. n \<in> set (map name (args (example_objects (description example_kernel))))
               \<and> set (map fst [(''x'', ClArray 3 0)])
                   = set (map name (args (example_objects (description example_kernel)))) - {n})
         \<or> (\<exists>n. n \<notin> set (map name (args (example_objects (description example_kernel))))
               \<and> set (map fst [(''x'', ClArray 3 0)])
                   = insert n (set (map name (args (example_objects (description example_kernel))))))"
    by (rule disjI1, rule exI [of _ "''n''"]) (auto simp: example_objects_def)
  have m2: "(\<exists>n. n \<in> set (map name (args (example_objects (description example_kernel))))
               \<and> set (map fst [(''x'', ClArray 3 0), (''n'', PyInt 8), (''y'', PyInt 1)])
                   = set (map name (args (example_objects (description example_kernel)))) - {n})
         \<or> (\<exists>n. n \<notin> set (map name (args (example_objects (description example_kernel))))
               \<and> set (map fst [(''x'', ClArray 3 0), (''n'', PyInt 8), (''y'', PyInt 1)])
                   = insert n (set (map name (args (example_objects (description example_kernel))))))"
    by (rule disjI2, rule exI [of _ "''y''"]) (auto simp: example_objects_def)
  from kernel_call_name_mismatch [where objs = example_objects and self = example_kernel, OF d d1 m1]
       kernel_call_name_mismatch [where objs = example_objects and self = example_kernel, OF d d2 m2]
  show ?thesis by simp
qed

text \<open>
  C9. A call that returns gives back the event of the native launch: the launch is
  appended to the queue, and a wait on that event follows it exactly when
  \<open>wait_on_call\<close> is set.
\<close>

theorem kernel_call_returns_event:
  assumes "kernel_call rt objs self kwargs queue = (Inr ev, queue')"
  shows "\<exists>nt arg_list.
           enqueue rt (kernel_function self) nt arg_list queue = Inr ev
         \<and> queue' = queue @ [Launch (kernel_function self) nt arg_list]
                          @ (if wait_on_call self then [Wait ev] else [])"
  using assms
  by (auto simp: kernel_call_def Let_def split: if_splits sum.splits option.splits)

theorem kernel_call_returns_event_witness:
  "kernel_call example_runtime example_objects example_kernel
      [(''x'', ClArray 3 0), (''n'', PyInt 8)] []
     = (Inr 0, [Launch 7 (PyInt 8) [SubBuffer 3 0, NumpyScalar (ScalarType ''int32'') (PyInt 8)], Wait 0])
   \<and> kernel_call example_runtime example_objects (example_kernel\<lparr>wait_on_call := False\<rparr>)
      [(''x'', ClArray 3 0), (''n'', PyInt 8)] []
     = (Inr 0, [Launch 7 (PyInt 8) [SubBuffer 3 0, NumpyScalar (ScalarType ''int32'') (PyInt 8)]])"
proof -
  have c1: "kernel_call example_runtime example_objects example_kernel
      [(''x'', ClArray 3 0), (''n'', PyInt 8)] []
     = (Inr 0, [Launch 7 (PyInt 8) [SubBuffer 3 0, NumpyScalar (ScalarType ''int32'') (PyInt 8)], Wait 0])"
    by (simp add: kernel_call_def num_args_def example_runtime_def example_objects_def
        example_kernel_def to_function_arg_def resolve_n_threads_def)
  have c2: "kernel_call example_runtime example_objects (example_kernel\<lparr>wait_on_call := False\<rparr>)
      [(''x'', ClArray 3 0), (''n'', PyInt 8)] []
     = (Inr 0, [Launch 7 (PyInt 8) [SubBuffer 3 0, NumpyScalar (ScalarType ''int32'') (PyInt 8)]])"
    by (simp add: kernel_call_def num_args_def example_runtime_def example_objects_def
        example_kernel_def to_function_arg_def resolve_n_threads_def)
  from kernel_call_returns_event [OF c1] kernel_call_returns_event [OF c2] c1 c2
  show ?thesis by simp
qed

section \<open>Marshalling one argument\<close>

text \<open>
  C5, as stated, fails: for a pointer argument of numerical scalar type, an xobject array
  is refused with \<open>NotImplementedError\<close>, not with the type error, and a plain number is
  not refused at all.
\<close>

theorem to_function_arg_pointer_scalar_counterexample:
  "to_function_arg example_runtime (example_objects 0) example_pointer_arg XoArray
     = Inl NotImplementedError
   \<and> to_function_arg example_runtime (example_objects 0) example_pointer_arg (PyInt 3) = Inr PyNone"
  by (simp add: to_function_arg_def example_pointer_arg_def)

text \<open>
  C5, amended. For a pointer argument of numerical scalar type: a pyopencl array is
  marshalled as the slice \<open>base_data[offset:]\<close> of its backing buffer, so the native
  argument is that sub-buffer, and the marshalling fails with the library's error when
  the sub-buffer cannot be created (an offset that is not aligned for the device); a
  value with a \<open>dtype\<close> that is not a pyopencl array (a host array) fails on the
  \<open>isinstance\<close> assertion (the type error); an xobject array fails with
  \<open>NotImplementedError\<close>.
\<close>

theorem to_function_arg_pointer_scalar:
  assumes "pointer a" and "atype_has_dtype (atype a)"
  shows "to_function_arg rt d a (ClArray base_data off) = sub_buffer rt base_data off
       \<and> to_function_arg rt d a HostArray = Inl AssertionError
       \<and> to_function_arg rt d a XoArray = Inl NotImplementedError"
  using assms by (simp add: to_function_arg_def)

theorem to_function_arg_pointer_scalar_witness:
  "to_function_arg example_runtime (example_objects 0) example_pointer_arg (ClArray 3 0)
     = Inr (SubBuffer 3 0)
   \<and> to_function_arg example_runtime (example_objects 0) example_pointer_arg (ClArray 3 16)
     = Inl CLError
   \<and> to_function_arg example_runtime (example_objects 0) example_pointer_arg HostArray
     = Inl AssertionError
   \<and> to_function_arg example_runtime (example_objects 0) example_pointer_arg XoArray
     = Inl NotImplementedError"
proof -
  have p: "pointer example_pointer_arg"
    by (simp add: example_pointer_arg_def)
  have s: "atype_has_dtype (atype example_pointer_arg)"
    by (simp add: example_pointer_arg_def)
  from to_function_arg_pointer_scalar [OF p s, of example_runtime "example_objects 0" 3 0]
       to_function_arg_pointer_scalar [OF p s, of example_runtime "example_objects 0" 3 16]
  show ?thesis by (simp add: example_runtime_def)
qed

text \<open>
  C6, as stated, fails: a pointer argument of compound type is refused with
  \<open>ValueError\<close> (the argument error), not with \<open>NotImplementedError\<close>.
\<close>

theorem to_function_arg_compound_counterexample:
  "to_function_arg example_runtime (example_objects 0) example_struct_arg XoArray = Inl ValueError"
  by (simp add: to_function_arg_def example_struct_arg_def raise_invalid_value_def
      example_objects_def)

text \<open>
  C6, amended. For an argument of compound type, whatever the value: passed by value,
  marshalling fails with \<open>NotImplementedError\<close>; passed as a pointer, under a
  description that has the \<open>pyname\<close> the error message names, it fails with
  \<open>ValueError\<close>.
\<close>

theorem to_function_arg_compound:
  assumes "atype a = CompoundType"
  shows "(\<not> pointer a \<longrightarrow> to_function_arg rt d a v = Inl NotImplementedError)
       \<and> (pointer a \<and> pyname_attr d \<noteq> None \<longrightarrow> to_function_arg rt d a v = Inl ValueError)"
  using assms by (auto simp: to_function_arg_def raise_invalid_value_def)

theorem to_function_arg_compound_witness:
  "to_function_arg example_runtime (example_objects 0) example_struct_arg (ClArray 3 0)
     = Inl ValueError
   \<and> to_function_arg example_runtime (example_objects 0) (example_struct_arg\<lparr>pointer := False\<rparr>)
       (ClArray 3 0)
     = Inl NotImplementedError"
proof -
  have c: "atype example_struct_arg = CompoundType"
    by (simp add: example_struct_arg_def)
  have c': "atype (example_struct_arg\<lparr>pointer := False\<rparr>) = CompoundType"
    by (simp add: example_struct_arg_def)
  from to_function_arg_compound [OF c, of example_runtime "example_objects 0" "ClArray 3 0"]
       to_function_arg_compound [OF c', of example_runtime "example_objects 0" "ClArray 3 0"]
  show ?thesis by (simp add: example_struct_arg_def example_objects_def)
qed

text \<open>
  Under a description without \<open>pyname\<close>, building the message of the \<open>ValueError\<close>
  fails first.
\<close>

lemma to_function_arg_compound_no_pyname:
  assumes "atype a = CompoundType" and "pointer a" and "pyname_attr d = None"
  shows "to_function_arg rt d a v = Inl AttributeError"
  using assms by (simp add: to_function_arg_def raise_invalid_value_def)

section \<open>Typed views\<close>

text \<open>
  C8 at \<open>to_nplike(0, float64, (4,))\<close>. The requested dtype never reaches the array
  constructor: whatever the constructor, the result is the same for any two dtypes; and
  the constructor of pyopencl refuses the call it is given.
\<close>

theorem to_nplike_drops_dtype:
  "to_nplike Array \<lparr>capacity = 64, buffer = 0\<rparr> 0 ''float64'' [4]
     = to_nplike Array \<lparr>capacity = 64, buffer = 0\<rparr> 0 ''int8'' [4]
   \<and> to_nplike cl_array_Array \<lparr>capacity = 64, buffer = 0\<rparr> 0 ''float64'' [4] = Inl TypeError"
  by (simp add: to_nplike_def cl_array_Array_def)

lemma to_nplike_any_dtype:
  "to_nplike Array self offset dtype shape = to_nplike Array self offset dtype' shape"
  by (simp add: to_nplike_def)

section \<open>Compiling kernels\<close>

text \<open>One turn of the loop, unfolded by the two tests it makes.\<close>

lemma bind_kernels_unnamed:
  assumes "c_name (objects st kd) = None"
  shows "bind_kernels prg ((pyname, kd) # rest) st =
     (case prg pyname of
        None \<Rightarrow> (Some AttributeError,
                  st\<lparr>objects := (objects st)(kd := (objects st kd)\<lparr>c_name := Some pyname\<rparr>)\<rparr>)
      | Some f \<Rightarrow>
          bind_kernels prg rest
            (st\<lparr>objects := (objects st)(kd := (objects st kd)\<lparr>c_name := Some pyname\<rparr>),
                kernels := (kernels st)(pyname \<mapsto>
                   \<lparr>kernel_function = f, description = kd, wait_on_call = True\<rparr>)\<rparr>))"
  using assms by (simp add: Let_def split: option.splits)

lemma bind_kernels_named:
  assumes "c_name (objects st kd) = Some cn"
  shows "bind_kernels prg ((pyname, kd) # rest) st =
     (case prg cn of
        None \<Rightarrow> (Some AttributeError, st)
      | Some f \<Rightarrow>
          bind_kernels prg rest
            (st\<lparr>kernels := (kernels st)(pyname \<mapsto>
                   \<lparr>kernel_function = f, description = kd, wait_on_call = True\<rparr>)\<rparr>))"
  using assms by (simp add: Let_def split: option.splits)

text \<open>A description that has its native name is never written again.\<close>

lemma bind_kernels_named_kept:
  "bind_kernels prg items st = (res, st') \<Longrightarrow> c_name (objects st r) = Some cn \<Longrightarrow>
   objects st' r = objects st r"
proof (induction items arbitrary: st res st')
  case Nil
  then show ?case by simp
next
  case (Cons item rest)
  obtain pyname kd where item: "item = (pyname, kd)" by (cases item)
  show ?case
  proof (cases "c_name (objects st kd)")
    case None
    then have ne: "kd \<noteq> r" using Cons.prems(2) by auto
    let ?st1 = "st\<lparr>objects := (objects st)(kd := (objects st kd)\<lparr>c_name := Some pyname\<rparr>)\<rparr>"
    show ?thesis
    proof (cases "prg pyname")
      case pn: None
      have "st' = ?st1"
        using Cons.prems(1) item pn by (simp add: bind_kernels_unnamed [OF None] del: bind_kernels.simps)
      then show ?thesis using ne by simp
    next
      case (Some f)
      let ?st2 = "st\<lparr>objects := (objects st)(kd := (objects st kd)\<lparr>c_name := Some pyname\<rparr>),
                kernels := (kernels st)(pyname \<mapsto>
                   \<lparr>kernel_function = f, description = kd, wait_on_call = True\<rparr>)\<rparr>"
      have run: "bind_kernels prg rest ?st2 = (res, st')"
        using Cons.prems(1) item Some by (simp add: bind_kernels_unnamed [OF None] del: bind_kernels.simps)
      have "c_name (objects ?st2 r) = Some cn"
        using Cons.prems(2) ne by simp
      from Cons.IH [OF run this] show ?thesis using ne by simp
    qed
  next
    case (Some c)
    show ?thesis
    proof (cases "prg c")
      case None
      have "st' = st"
        using Cons.prems(1) item None by (simp add: bind_kernels_named [OF Some] del: bind_kernels.simps)
      then show ?thesis by simp
    next
      case f: (Some f)
      let ?st2 = "st\<lparr>kernels := (kernels st)(pyname \<mapsto>
                   \<lparr>kernel_function = f, description = kd, wait_on_call = True\<rparr>)\<rparr>"
      have run: "bind_kernels prg rest ?st2 = (res, st')"
        using Cons.prems(1) item f by (simp add: bind_kernels_named [OF Some] del: bind_kernels.simps)
      have "c_name (objects ?st2 r) = Some cn"
        using Cons.prems(2) by simp
      from Cons.IH [OF run this] show ?thesis by simp
    qed
  qed
qed

text \<open>Entries that do not hold a reference leave its object alone.\<close>

lemma bind_kernels_other_objects:
  "bind_kernels prg items st = (res, st') \<Longrightarrow> r \<notin> snd ` set items \<Longrightarrow>
   objects st' r = objects st r"
proof (induction items arbitrary: st res st')
  case Nil
  then show ?case by simp
next
  case (Cons item rest)
  obtain pyname kd where item: "item = (pyname, kd)" by (cases item)
  have ne: "kd \<noteq> r" and rest: "r \<notin> snd ` set rest"
    using Cons.prems(2) item by auto
  show ?case
  proof (cases "c_name (objects st kd)")
    case None
    let ?st1 = "st\<lparr>objects := (objects st)(kd := (objects st kd)\<lparr>c_name := Some pyname\<rparr>)\<rparr>"
    show ?thesis
    proof (cases "prg pyname")
      case pn: None
      have "st' = ?st1"
        using Cons.prems(1) item pn by (simp add: bind_kernels_unnamed [OF None] del: bind_kernels.simps)
      then show ?thesis using ne by simp
    next
      case (Some f)
      let ?st2 = "st\<lparr>objects := (objects st)(kd := (objects st kd)\<lparr>c_name := Some pyname\<rparr>),
                kernels := (kernels st)(pyname \<mapsto>
                   \<lparr>kernel_function = f, description = kd, wait_on_call = True\<rparr>)\<rparr>"
      have run: "bind_kernels prg rest ?st2 = (res, st')"
        using Cons.prems(1) item Some by (simp add: bind_kernels_unnamed [OF None] del: bind_kernels.simps)
      from Cons.IH [OF run rest] show ?thesis using ne by simp
    qed
  next
    case (Some c)
    show ?thesis
    proof (cases "prg c")
      case None
      have "st' = st"
        using Cons.prems(1) item None by (simp add: bind_kernels_named [OF Some] del: bind_kernels.simps)
      then show ?thesis by simp
    next
      case f: (Some f)
      let ?st2 = "st\<lparr>kernels := (kernels st)(pyname \<mapsto>
                   \<lparr>kernel_function = f, description = kd, wait_on_call = True\<rparr>)\<rparr>"
      have run: "bind_kernels prg rest ?st2 = (res, st')"
        using Cons.prems(1) item f by (simp add: bind_kernels_named [OF Some] del: bind_kernels.simps)
      from Cons.IH [OF run rest] show ?thesis by simp
    qed
  qed
qed

text \<open>Entries under other names leave a binding alone.\<close>

lemma bind_kernels_other_names:
  "bind_kernels prg items st = (res, st') \<Longrightarrow> k \<notin> fst ` set items \<Longrightarrow>
   kernels st' k = kernels st k"
proof (induction items arbitrary: st res st')
  case Nil
  then show ?case by simp
next
  case (Cons item rest)
  obtain pyname kd where item: "item = (pyname, kd)" by (cases item)
  have ne: "pyname \<noteq> k" and rest: "k \<notin> fst ` set rest"
    using Cons.prems(2) item by auto
  show ?case
  proof (cases "c_name (objects st kd)")
    case None
    let ?st1 = "st\<lparr>objects := (objects st)(kd := (objects st kd)\<lparr>c_name := Some pyname\<rparr>)\<rparr>"
    show ?thesis
    proof (cases "prg pyname")
      case pn: None
      have "st' = ?st1"
        using Cons.prems(1) item pn by (simp add: bind_kernels_unnamed [OF None] del: bind_kernels.simps)
      then show ?thesis by simp
    next
      case (Some f)
      let ?st2 = "st\<lparr>objects := (objects st)(kd := (objects st kd)\<lparr>c_name := Some pyname\<rparr>),
                kernels := (kernels st)(pyname \<mapsto>
                   \<lparr>kernel_function = f, description = kd, wait_on_call = True\<rparr>)\<rparr>"
      have run: "bind_kernels prg rest ?st2 = (res, st')"
        using Cons.prems(1) item Some by (simp add: bind_kernels_unnamed [OF None] del: bind_kernels.simps)
      from Cons.IH [OF run rest] show ?thesis using ne by simp
    qed
  next
    case (Some c)
    show ?thesis
    proof (cases "prg c")
      case None
      have "st' = st"
        using Cons.prems(1) item None by (simp add: bind_kernels_named [OF Some] del: bind_kernels.simps)
      then show ?thesis by simp
    next
      case f: (Some f)
      let ?st2 = "st\<lparr>kernels := (kernels st)(pyname \<mapsto>
                   \<lparr>kernel_function = f, description = kd, wait_on_call = True\<rparr>)\<rparr>"
      have run: "bind_kernels prg rest ?st2 = (res, st')"
        using Cons.prems(1) item f by (simp add: bind_kernels_named [OF Some] del: bind_kernels.simps)
      from Cons.IH [OF run rest] show ?thesis using ne by simp
    qed
  qed
qed


text \<open>The loop over a dict whose items are \<open>xs\<close> followed by \<open>ys\<close>.\<close>

lemma bind_kernels_append:
  "bind_kernels prg (xs @ ys) st =
     (case bind_kernels prg xs st of
        (None, st1) \<Rightarrow> bind_kernels prg ys st1
      | (Some e, st1) \<Rightarrow> (Some e, st1))"
proof (induction xs arbitrary: st)
  case Nil
  then show ?case by simp
next
  case (Cons item rest)
  obtain pyname kd where item: "item = (pyname, kd)" by (cases item)
  show ?case
  proof (cases "c_name (objects st kd)")
    case None
    show ?thesis
      unfolding item append_Cons bind_kernels_unnamed [OF None]
      by (simp add: Cons.IH split: option.splits)
  next
    case (Some c)
    show ?thesis
      unfolding item append_Cons bind_kernels_named [OF Some]
      by (simp add: Cons.IH split: option.splits)
  qed
qed

text \<open>What one successful turn of the loop leaves behind.\<close>

lemma bind_kernels_turn:
  assumes "bind_kernels prg ((pyname, kd) # rest) st = (None, st')"
  shows "\<exists>cn f st2.
           cn = (case c_name (objects st kd) of None \<Rightarrow> pyname | Some c \<Rightarrow> c)
         \<and> prg cn = Some f
         \<and> objects st2 = (objects st)(kd := (objects st kd)\<lparr>c_name := Some cn\<rparr>)
         \<and> kernels st2 = (kernels st)(pyname \<mapsto>
               \<lparr>kernel_function = f, description = kd, wait_on_call = True\<rparr>)
         \<and> bind_kernels prg rest st2 = (None, st')"
proof (cases "c_name (objects st kd)")
  case None
  show ?thesis
  proof (cases "prg pyname")
    case pn: None
    then show ?thesis
      using assms by (simp add: bind_kernels_unnamed [OF None] del: bind_kernels.simps)
  next
    case (Some f)
    let ?st2 = "st\<lparr>objects := (objects st)(kd := (objects st kd)\<lparr>c_name := Some pyname\<rparr>),
                kernels := (kernels st)(pyname \<mapsto>
                   \<lparr>kernel_function = f, description = kd, wait_on_call = True\<rparr>)\<rparr>"
    have "bind_kernels prg rest ?st2 = (None, st')"
      using assms Some by (simp add: bind_kernels_unnamed [OF None] del: bind_kernels.simps)
    then show ?thesis
      using None Some by (intro exI [of _ pyname] exI [of _ f] exI [of _ ?st2]) simp
  qed
next
  case (Some c)
  show ?thesis
  proof (cases "prg c")
    case None
    then show ?thesis
      using assms by (simp add: bind_kernels_named [OF Some] del: bind_kernels.simps)
  next
    case f: (Some f)
    let ?st2 = "st\<lparr>kernels := (kernels st)(pyname \<mapsto>
                   \<lparr>kernel_function = f, description = kd, wait_on_call = True\<rparr>)\<rparr>"
    have obj: "(objects st)(kd := (objects st kd)\<lparr>c_name := Some c\<rparr>) = objects st"
      using Some by (auto simp: fun_eq_iff)
    have "bind_kernels prg rest ?st2 = (None, st')"
      using assms f by (simp add: bind_kernels_named [OF Some] del: bind_kernels.simps)
    then show ?thesis
      using Some f obj by (intro exI [of _ c] exI [of _ f] exI [of _ ?st2]) simp
  qed
qed

lemma bind_kernels_split:
  assumes "bind_kernels prg (pre @ (pyname, kd) # post) st = (None, st')"
  shows "\<exists>st1. bind_kernels prg pre st = (None, st1)
             \<and> bind_kernels prg ((pyname, kd) # post) st1 = (None, st')"
proof (cases "bind_kernels prg pre st")
  case (Pair res st1)
  show ?thesis
  proof (cases res)
    case None
    then show ?thesis
      using assms Pair by (simp add: bind_kernels_append del: bind_kernels.simps)
  next
    case (Some e)
    then show ?thesis
      using assms Pair by (simp add: bind_kernels_append del: bind_kernels.simps)
  qed
qed

lemma add_kernels_returns:
  assumes "add_kernels tc sources items specialize save_source_as st = (None, st')"
  shows "\<exists>prg. build_program tc sources specialize save_source_as = Inr prg
             \<and> bind_kernels prg items st = (None, st')"
  using assms by (auto simp: add_kernels_def split: sum.splits)

text \<open>
  C10. After a call that returns, every entry \<open>(pyname, kernel)\<close> of the dict whose
  description object had no \<open>c_name\<close>, and which no earlier entry of the same dict refers
  to, is the caller's object with \<open>c_name\<close> set to \<open>pyname\<close> and nothing else changed.
\<close>

theorem add_kernels_assigns_c_name:
  assumes "add_kernels tc sources (pre @ (pyname, r) # post) specialize save_source_as st = (None, st')"
      and "c_name (objects st r) = None"
      and "r \<notin> snd ` set pre"
  shows "objects st' r = (objects st r)\<lparr>c_name := Some pyname\<rparr>"
proof -
  obtain prg where run: "bind_kernels prg (pre @ (pyname, r) # post) st = (None, st')"
    using add_kernels_returns [OF assms(1)] by blast
  obtain st1 where pre: "bind_kernels prg pre st = (None, st1)"
    and turn: "bind_kernels prg ((pyname, r) # post) st1 = (None, st')"
    using bind_kernels_split [OF run] by blast
  have same: "objects st1 r = objects st r"
    using pre assms(3) by (rule bind_kernels_other_objects)
  obtain cn f st2 where
    cn: "cn = (case c_name (objects st1 r) of None \<Rightarrow> pyname | Some c \<Rightarrow> c)"
    and "prg cn = Some f"
    and obj: "objects st2 = (objects st1)(r := (objects st1 r)\<lparr>c_name := Some cn\<rparr>)"
    and post: "bind_kernels prg post st2 = (None, st')"
    using bind_kernels_turn [OF turn] by blast
  have "cn = pyname"
    using cn same assms(2) by simp
  then have st2: "objects st2 r = (objects st r)\<lparr>c_name := Some pyname\<rparr>"
    using obj same by simp
  then have "c_name (objects st2 r) = Some pyname"
    by simp
  with post have "objects st' r = objects st2 r"
    by (rule bind_kernels_named_kept)
  with st2 show ?thesis by simp
qed

text \<open>
  C7. Whatever the context's mapping held before, in particular an earlier binding under
  the same name, after a call that returns every name of the compiled set is bound to the
  entry point of the program just built, with its description and the default wait
  policy.
\<close>

theorem add_kernels_replaces_binding:
  assumes "add_kernels tc sources items specialize save_source_as st = (None, st')"
      and "distinct (map fst items)"
      and "(pyname, r) \<in> set items"
  shows "\<exists>prg cn f.
           build_program tc sources specialize save_source_as = Inr prg
         \<and> c_name (objects st' r) = Some cn
         \<and> prg cn = Some f
         \<and> kernels st' pyname = Some \<lparr>kernel_function = f, description = r, wait_on_call = True\<rparr>"
proof -
  obtain prg where built: "build_program tc sources specialize save_source_as = Inr prg"
    and run: "bind_kernels prg items st = (None, st')"
    using add_kernels_returns [OF assms(1)] by blast
  obtain pre post where items: "items = pre @ (pyname, r) # post"
    using assms(3) by (meson split_list)
  have later: "pyname \<notin> fst ` set post"
    using assms(2) unfolding items by auto
  obtain st1 where turn: "bind_kernels prg ((pyname, r) # post) st1 = (None, st')"
    using bind_kernels_split [OF run [unfolded items]] by blast
  obtain cn f st2 where
    f: "prg cn = Some f"
    and obj: "objects st2 = (objects st1)(r := (objects st1 r)\<lparr>c_name := Some cn\<rparr>)"
    and ker: "kernels st2 = (kernels st1)(pyname \<mapsto>
               \<lparr>kernel_function = f, description = r, wait_on_call = True\<rparr>)"
    and post: "bind_kernels prg post st2 = (None, st')"
    using bind_kernels_turn [OF turn] by blast
  have "c_name (objects st2 r) = Some cn"
    using obj by simp
  moreover from post this have "objects st' r = objects st2 r"
    by (rule bind_kernels_named_kept)
  ultimately have named: "c_name (objects st' r) = Some cn"
    by simp
  have "kernels st' pyname = kernels st2 pyname"
    using post later by (rule bind_kernels_other_names)
  then have "kernels st' pyname
               = Some \<lparr>kernel_function = f, description = r, wait_on_call = True\<rparr>"
    using ker by simp
  with built named f show ?thesis by blast
qed


lemma example_add_kernels_returns:
  "fst (add_kernels example_toolchain [Text ''src''] [(''scale'', 0), (''add'', 1)] True None
          example_state) = None"
  by (simp add: add_kernels_def build_program_def example_toolchain_def example_state_def)

theorem add_kernels_assigns_c_name_witness:
  "fst (add_kernels example_toolchain [Text ''src''] [(''scale'', 0), (''add'', 1)] True None
          example_state) = None
   \<and> c_name (objects example_state 0) = None
   \<and> objects (snd (add_kernels example_toolchain [Text ''src''] [(''scale'', 0), (''add'', 1)]
                      True None example_state)) 0
       = \<lparr>c_name = Some ''scale'', pyname_attr = None, args = [], n_threads = ThreadsFixed 1\<rparr>"
proof -
  let ?out = "add_kernels example_toolchain [Text ''src''] [(''scale'', 0), (''add'', 1)] True None
                example_state"
  have run: "add_kernels example_toolchain [Text ''src''] ([] @ (''scale'', 0) # [(''add'', 1)])
               True None example_state = (None, snd ?out)"
    using example_add_kernels_returns by (simp add: prod_eq_iff)
  have unnamed: "c_name (objects example_state 0) = None"
    by (simp add: example_state_def)
  have first: "(0::nat) \<notin> snd ` set []"
    by simp
  from add_kernels_assigns_c_name [OF run unnamed first] example_add_kernels_returns unnamed
  show ?thesis by (simp add: example_state_def)
qed

theorem add_kernels_replaces_binding_witness:
  "kernels example_state ''scale''
     = Some \<lparr>kernel_function = 99, description = 5, wait_on_call = False\<rparr>
   \<and> (\<exists>prg cn f.
         build_program example_toolchain [Text ''src''] True None = Inr prg
       \<and> c_name (objects (snd (add_kernels example_toolchain [Text ''src'']
                                  [(''scale'', 0), (''add'', 1)] True None example_state)) 0) = Some cn
       \<and> prg cn = Some f
       \<and> kernels (snd (add_kernels example_toolchain [Text ''src'']
                          [(''scale'', 0), (''add'', 1)] True None example_state)) ''scale''
           = Some \<lparr>kernel_function = f, description = 0, wait_on_call = True\<rparr>)"
proof -
  let ?out = "add_kernels example_toolchain [Text ''src''] [(''scale'', 0), (''add'', 1)] True None
                example_state"
  have run: "add_kernels example_toolchain [Text ''src''] [(''scale'', 0), (''add'', 1)]
               True None example_state = (None, snd ?out)"
    using example_add_kernels_returns by (simp add: prod_eq_iff)
  have keys: "distinct (map fst [(''scale'', 0::nat), (''add'', 1)])"
    by simp
  have entry: "(''scale'', 0::nat) \<in> set [(''scale'', 0), (''add'', 1)]"
    by simp
  have before: "kernels example_state ''scale''
     = Some \<lparr>kernel_function = 99, description = 5, wait_on_call = False\<rparr>"
    by (simp add: example_state_def)
  from add_kernels_replaces_binding [OF run keys entry] before
  show ?thesis by simp
qed

section \<open>Transform plans\<close>

lemma ln2_ge_half: "1 / 2 \<le> ln (2::real)"
proof -
  have "exp (1::real) \<le> 4"
    using exp_le by linarith
  then have "(1::real) \<le> ln 4"
    by (simp add: ln_ge_iff)
  moreover have "ln (4::real) = 2 * ln 2"
    using ln_realpow [of "2::real" 2] by simp
  ultimately show ?thesis by linarith
qed

lemma ln2_pos: "0 < ln (2::real)"
  using ln2_ge_half by linarith

text \<open>Every power of two passes the test on an extent.\<close>

lemma power_of_two_accepted: "extent_accepted (2 ^ k)"
proof -
  have "ln (real (2 ^ k)) / ln 2 = real k"
    using ln2_pos by (simp add: ln_realpow)
  then have "frac_part_log2 (2 ^ k) = 0"
    by (simp add: frac_part_log2_def)
  then show ?thesis
    by (simp add: extent_accepted_def isclose_zero_def)
qed

text \<open>An extent of 6 does not: its logarithm lies between 2.5 and 3.\<close>

lemma six_rejected: "\<not> extent_accepted 6"
proof -
  let ?x = "ln (real 6) / ln 2"
  have l36: "ln (36::real) = 2 * ln 6"
    using ln_realpow [of "6::real" 2] by simp
  have l32: "ln (32::real) = 5 * ln 2"
    using ln_realpow [of "2::real" 5] by simp
  have l8: "ln (8::real) = 3 * ln 2"
    using ln_realpow [of "2::real" 3] by simp
  have "ln (32::real) \<le> ln 36"
    by simp
  then have lo: "5 / 2 * ln 2 \<le> ln (6::real)"
    using l36 l32 by linarith
  have "ln (6::real) < ln 8"
    by simp
  then have hi: "ln (6::real) < 3 * ln 2"
    using l8 by linarith
  have x_lo: "5 / 2 \<le> ?x"
    using lo ln2_pos by (simp add: pos_le_divide_eq)
  have x_hi: "?x < 3"
    using hi ln2_pos by (simp add: pos_divide_less_eq)
  have "of_int 2 \<le> ?x" and "?x < of_int 2 + 1"
    unfolding of_int_numeral using x_lo x_hi by linarith+
  then have "\<lfloor>?x\<rfloor> = 2"
    by (rule floor_unique)
  then have "frac ?x = ?x - 2"
    by (simp add: frac_def)
  then have "1 / 2 \<le> frac ?x"
    using x_lo by linarith
  then have "\<not> isclose_zero (frac_part_log2 6)"
    by (simp add: isclose_zero_def frac_part_log2_def)
  then show ?thesis
    by (simp add: extent_accepted_def)
qed

text \<open>
  The extent \<open>2^28 + 1\<close> is no power of two, and passes: its logarithm exceeds 28 by
  less than \<open>2^-27\<close>, inside the tolerance of the test.
\<close>

lemma near_power_accepted: "extent_accepted 268435457"
proof -
  let ?x = "ln (real 268435457) / ln 2"
  let ?d = "ln (1 + 1 / 2 ^ 28 :: real)"
  have split: "(268435457::real) = 2 ^ 28 * (1 + 1 / 2 ^ 28)"
    by simp
  have prod: "ln ((2::real) ^ 28 * (1 + 1 / 2 ^ 28)) = ln ((2::real) ^ 28) + ?d"
    by (rule ln_mult_pos) simp_all
  have pow: "ln ((2::real) ^ 28) = real 28 * ln 2"
    by (rule ln_realpow)
  have sum: "ln (real 268435457) = 28 * ln 2 + ?d"
    by (subst of_nat_numeral, subst split) (simp only: prod pow of_nat_numeral)
  have d_pos: "0 < ?d"
    by (intro ln_gt_zero) simp
  have d_le: "?d \<le> 1 / 2 ^ 28"
    by (intro ln_add_one_self_le_self) simp
  have "?x = (28 * ln 2 + ?d) / ln 2"
    by (simp only: sum)
  also have "\<dots> = 28 + ?d / ln 2"
    using ln2_pos by (simp add: add_divide_distrib)
  finally have x: "?x = 28 + ?d / ln 2" .
  have q_pos: "0 < ?d / ln 2"
    using d_pos ln2_pos by simp
  have "?d / ln 2 \<le> (1 / 2 ^ 28) / (1 / 2)"
    using d_le ln2_ge_half d_pos by (intro frac_le) simp_all
  then have q_le: "?d / ln 2 \<le> 1 / 2 ^ 27"
    by simp
  have small: "(1::real) / 2 ^ 27 \<le> 1 / 10 ^ 8"
    by simp
  have tiny: "(1::real) / 2 ^ 27 < 1"
    by simp
  have "of_int 28 \<le> ?x" and "?x < of_int 28 + 1"
    unfolding of_int_numeral using x q_pos q_le tiny by linarith+
  then have "\<lfloor>?x\<rfloor> = 28"
    by (rule floor_unique)
  then have "frac ?x = ?x - 28"
    by (simp add: frac_def)
  then have "\<bar>frac ?x\<bar> \<le> 1 / 10 ^ 8"
    using x q_pos q_le small by linarith
  then show ?thesis
    by (simp add: extent_accepted_def isclose_zero_def frac_part_log2_def)
qed

lemma not_power_of_two: "\<forall>k. (268435457::nat) \<noteq> 2 ^ k"
proof
  fix k :: nat
  show "(268435457::nat) \<noteq> 2 ^ k"
  proof (cases k)
    case 0
    then show ?thesis by simp
  next
    case (Suc j)
    have "even ((2::nat) ^ Suc j)" by simp
    moreover have "odd (268435457::nat)" by simp
    ultimately show ?thesis using Suc by metis
  qed
qed

text \<open>
  C4 at \<open>data.shape = (268435457, 1)\<close>, \<open>axes = (0, 1)\<close>. The extent of the transformed
  axis 0, which is not the last, is not a power of two; both assertions pass and the
  constructor goes on to build the native plan.
\<close>

theorem fft_init_accepts_near_power:
  "(\<forall>k. (268435457::nat) \<noteq> 2 ^ k)
   \<and> FFTPyopencl_init native_plan [268435457, 1] [0, 1] wait =
       (case native_plan [268435457, 1] [0, 1] of
          Inl e \<Rightarrow> Inl e
        | Inr plan \<Rightarrow> Inr \<lparr>axes = [0, 1], fft_wait_on_call = wait, fftobj = plan\<rparr>)"
  using not_power_of_two near_power_accepted
  by (simp add: FFTPyopencl_init_def py_max_def py_index_def)

text \<open>An extent of zero passes as well.\<close>

lemma fft_init_accepts_zero_extent:
  "FFTPyopencl_init native_plan [0, 4] [0, 1] wait =
     (case native_plan [0, 4] [0, 1] of
        Inl e \<Rightarrow> Inl e
      | Inr plan \<Rightarrow> Inr \<lparr>axes = [0, 1], fft_wait_on_call = wait, fftobj = plan\<rparr>)"
  by (simp add: FFTPyopencl_init_def py_max_def py_index_def extent_accepted_def)

text \<open>
  What the constructor does check: the rank against the largest axis, an extent of 6 on
  a transformed axis that is not the last, and the extents \<open>(8, 4)\<close> with axes \<open>(0, 1)\<close>,
  all before the native plan is asked for.
\<close>

lemma fft_init_rank:
  assumes "py_max axs = Inr m" and "int (length shape) \<le> m"
  shows "FFTPyopencl_init native_plan shape axs wait = Inl AssertionError"
  using assms by (simp add: FFTPyopencl_init_def)

lemma fft_init_extent_6:
  "FFTPyopencl_init native_plan [6, 4] [0, 1] wait = Inl AssertionError"
  using six_rejected by (simp add: FFTPyopencl_init_def py_max_def py_index_def)

lemma fft_init_8_4:
  "FFTPyopencl_init native_plan [8, 4] [0, 1] wait =
     (case native_plan [8, 4] [0, 1] of
        Inl e \<Rightarrow> Inl e
      | Inr plan \<Rightarrow> Inr \<lparr>axes = [0, 1], fft_wait_on_call = wait, fftobj = plan\<rparr>)"
  using power_of_two_accepted [of 3]
  by (simp add: FFTPyopencl_init_def py_max_def py_index_def)

end
